theory Spec2Isabelle
  imports Main "HOL-Library.Sublist"
begin

section \<open>The Gemini response handler: one run per outbound message\<close>

text \<open>
  The theory embeds the class \<open>GeminiResponseHandler\<close>: its mutable fields, the calls
  it issues to the chat client, the channel and the search provider, and the three
  paths that end a run (the stream is exhausted, the stream throws, a stop event is
  delivered).

  The handler is asynchronous code on a single thread. It is modelled at the
  granularity of deliveries: a chunk pulled from the stream is processed to the end
  of the loop body, and a stop event is handled to the end of its handler, before the
  next delivery is looked at. The error handler is the exception: each of its two
  awaited calls comes with the stop events handled while it is suspended there and
  with whether the call resolves. The other calls to the chat client and to the
  channel are taken to resolve; every call is recorded, in the order it is issued, in the
  \<open>trace\<close> field of the state (the updates of the loop are not awaited by the
  source, so the trace gives the order of issue). The clock is read through the
  deliveries: each chunk comes with what \<open>Date.now()\<close> returns while its text is
  handled.
\<close>

subsection \<open>Values of the host language\<close>

text \<open>
  The argument payload of a function call is decoded JSON. Numbers are kept by their
  integer value; the handler only ever tests a number for being zero.
\<close>

datatype js_value =
    JNull
  | JBool bool
  | JNum int
  | JStr string
  | JArr "js_value list"
  | JObj "(string \<times> js_value) list"

text \<open>The truth value the host language gives a value in a condition.\<close>

fun truthy :: "js_value \<Rightarrow> bool" where
  "truthy JNull = False"
| "truthy (JBool b) = b"
| "truthy (JNum n) = (n \<noteq> 0)"
| "truthy (JStr s) = (s \<noteq> [])"
| "truthy (JArr vs) = True"
| "truthy (JObj kvs) = True"

text \<open>\<open>typeof v === "object" && v !== null\<close>: arrays and objects.\<close>

fun is_object :: "js_value \<Rightarrow> bool" where
  "is_object (JArr vs) = True"
| "is_object (JObj kvs) = True"
| "is_object v = False"

text \<open>
  The property read \<open>v.query\<close> on an object or an array; \<open>None\<close> is
  \<open>undefined\<close>. An array has no such property.
\<close>

fun get_query :: "js_value \<Rightarrow> js_value option" where
  "get_query (JObj kvs) = map_of kvs ''query''"
| "get_query v = None"

text \<open>
  A thrown value whose properties can be read, taken as an \<open>Error\<close> (the source
  casts it so): its \<open>message\<close> property, \<open>None\<close> when it is null or
  undefined, and the result of its \<open>toString()\<close>.
\<close>

record js_error =
  error_message :: "string option"
  error_toString :: string

text \<open>
  What the stream throws: such a value, or \<open>null\<close> or \<open>undefined\<close>, on which
  reading \<open>message\<close> throws a \<open>TypeError\<close>.
\<close>

datatype thrown = Thrown js_error | Nullish

text \<open>
  The network, as the provider sees it. What \<open>fetch\<close>, \<open>response.text()\<close>
  or \<open>response.json()\<close> throws is either an \<open>Error\<close> with its message or
  something else. A request is rejected, or answered with a status that is not ok and
  a body text, or answered ok with a JSON body; reading either body may throw.
\<close>

datatype fetch_error = Error_instance string | Not_an_error

datatype 'a attempt = Throws fetch_error | Returns 'a

datatype fetch_outcome =
    Fetch_rejects fetch_error
  | Response_not_ok int "string attempt"
  | Response_ok "js_value attempt"

text \<open>
  The built-in functions the handler calls and the surroundings of the provider are
  parameters of the model. \<open>JSON_parse\<close> gives \<open>None\<close> where the built-in
  throws. \<open>TAVILY_API_KEY\<close> is the variable of the process environment,
  \<open>None\<close> when it is not set. \<open>fetch\<close> gives what the search request does,
  for the key sent in its header and the query sent in its body.
\<close>

record env =
  js_String :: "js_value \<Rightarrow> string"
  JSON_stringify :: "js_value \<Rightarrow> string"
  JSON_parse :: "string \<Rightarrow> js_value option"
  TAVILY_API_KEY :: "string option"
  fetch :: "string \<Rightarrow> string \<Rightarrow> fetch_outcome"

subsection \<open>Stream elements, events and calls issued\<close>

record function_call =
  name :: "string option"
  args :: "js_value option"

record chunk =
  functionCalls :: "function_call list option"
  chunk_text :: "string option"

record message_response =
  cid :: "string option"
  message_id :: string

text \<open>An inbound \<open>ai_indicator.stop\<close> event; its message id may be missing.\<close>

record stop_event =
  event_message_id :: "string option"

datatype ai_state = AI_STATE_THINKING | AI_STATE_EXTERNAL_SOURCES | AI_STATE_ERROR

text \<open>The events the handler sends on the channel, with their \<open>cid\<close> and message id.\<close>

datatype event =
    Indicator_update ai_state "string option" string
  | Indicator_clear "string option" string

text \<open>
  The three places that call \<open>partialUpdateMessage\<close>: inside the loop, under
  the throttle, at the clock reading given; after the loop; and in the error handler,
  which also sets the \<open>message\<close> field given.
\<close>

datatype update_site = Throttled int | Final | On_error string

datatype effect =
    Client_on
  | Client_off
  | On_dispose
  | Send_event event
  | Partial_update update_site string string
  | Web_search string

record tool_output =
  functionCall :: function_call
  output_name :: string
  response :: js_value

subsection \<open>The handler\<close>

record handler =
  message_text :: string
  chunk_counter :: nat
  run_id :: string
  is_done :: bool
  last_update_time :: int
  message :: message_response
  trace :: "effect list"

definition emit :: "effect \<Rightarrow> handler \<Rightarrow> handler" where
  "emit e s = s\<lparr>trace := trace s @ [e]\<rparr>"

text \<open>The constructor subscribes the stop handler.\<close>

definition constructor :: "message_response \<Rightarrow> handler" where
  "constructor m =
     \<lparr>message_text = [], chunk_counter = 0, run_id = [], is_done = False,
      last_update_time = 0, message = m, trace = [Client_on]\<rparr>"

definition dispose :: "handler \<Rightarrow> handler" where
  "dispose s =
     (if is_done s then s
      else emit On_dispose (emit Client_off (s\<lparr>is_done := True\<rparr>)))"

definition handleStopGenerating :: "handler \<Rightarrow> stop_event \<Rightarrow> handler" where
  "handleStopGenerating s ev =
     (if is_done s \<or> event_message_id ev \<noteq> Some (message_id (message s)) then s
      else dispose
        (emit (Send_event (Indicator_clear (cid (message s)) (message_id (message s)))) s))"

text \<open>Stop events handled one after the other.\<close>

fun handle_stops :: "handler \<Rightarrow> stop_event list \<Rightarrow> handler" where
  "handle_stops s [] = s"
| "handle_stops s (ev # evs) = handle_stops (handleStopGenerating s ev) evs"

text \<open>
  An awaited call: the stop events handled while the caller is suspended in it, and
  whether the call resolves; otherwise it rejects.
\<close>

record suspension =
  meanwhile :: "stop_event list"
  resolves :: bool

text \<open>The text the error handler writes into the message.\<close>

definition error_text :: "js_error \<Rightarrow> string" where
  "error_text err =
     ''Error: '' @
       (case error_message err of
          Some m \<Rightarrow> m
        | None \<Rightarrow> ''Error generating the message'')"

text \<open>
  \<open>handleError\<close>, with the suspensions of its two awaited calls: the status
  event and the update of the message. The result is the handler and whether
  \<open>handleError\<close> rejects: when an awaited call rejects, or when the thrown value
  is \<open>null\<close> or \<open>undefined\<close>, whose \<open>message\<close> is read while the
  arguments of the update are evaluated. \<open>dispose\<close> is reached on none of these
  paths.
\<close>

definition handleError ::
  "handler \<Rightarrow> thrown \<Rightarrow> suspension \<Rightarrow> suspension \<Rightarrow> handler \<times> bool"
where
  "handleError s error a1 a2 =
     (if is_done s then (s, False)
      else
        let s1 = handle_stops
                   (emit (Send_event
                            (Indicator_update AI_STATE_ERROR (cid (message s))
                               (message_id (message s)))) s)
                   (meanwhile a1)
        in if \<not> resolves a1 then (s1, True)
           else
             (case error of
                Nullish \<Rightarrow> (s1, True)
              | Thrown err \<Rightarrow>
                  let s2 = handle_stops
                             (emit (Partial_update (On_error (error_toString err))
                                      (message_id (message s)) (error_text err)) s1)
                             (meanwhile a2)
                  in if \<not> resolves a2 then (s2, True) else (dispose s2, False)))"

subsection \<open>The tool dispatcher\<close>

text \<open>The query handed to the provider, from the argument payload of a call.\<close>

definition queryForSearch :: "env \<Rightarrow> js_value \<Rightarrow> string" where
  "queryForSearch en a =
     (if is_object a then
        (case get_query a of
           Some (JStr q) \<Rightarrow> q
         | Some JNull \<Rightarrow> JSON_stringify en a
         | Some v \<Rightarrow> js_String en v
         | None \<Rightarrow> JSON_stringify en a)
      else js_String en a)"

definition failed_output :: "function_call \<Rightarrow> tool_output" where
  "failed_output call =
     \<lparr>functionCall = call, output_name = ''web_search'',
      response = JObj [(''error'', JStr ''failed to call tool'')]\<rparr>"

text \<open>The guard of the loop body: the call is named \<open>web_search\<close> and its payload is truthy.\<close>

definition dispatched :: "function_call \<Rightarrow> bool" where
  "dispatched call =
     (name call = Some ''web_search'' \<and>
      (case args call of None \<Rightarrow> False | Some a \<Rightarrow> truthy a))"

text \<open>
  The provider. It returns serialized JSON on every path: without a key, the error
  that the search is not configured, before any request; what its \<open>try\<close> block
  throws (the request, or reading a body) is caught and serialized with its message; a
  response that is not ok is serialized with its status and its body text.
\<close>

definition not_configured :: js_value where
  "not_configured =
     JObj [(''error'', JStr ''Web search is not available. API key not configured.'')]"

definition search_exception :: "fetch_error \<Rightarrow> js_value" where
  "search_exception e =
     JObj [(''error'', JStr ''An exception occurred during the search.''),
           (''message'',
            JStr (case e of Error_instance msg \<Rightarrow> msg | Not_an_error \<Rightarrow> ''Unknown error''))]"

definition search_failed :: "env \<Rightarrow> int \<Rightarrow> string \<Rightarrow> js_value" where
  "search_failed en status errorText =
     JObj [(''error'', JStr (''Search failed with status: '' @ js_String en (JNum status))),
           (''details'', JStr errorText)]"

definition performWebSearch :: "env \<Rightarrow> string \<Rightarrow> string" where
  "performWebSearch en query =
     (case TAVILY_API_KEY en of
        None \<Rightarrow> JSON_stringify en not_configured
      | Some key \<Rightarrow>
          if key = [] then JSON_stringify en not_configured
          else
            (case fetch en key query of
               Fetch_rejects e \<Rightarrow> JSON_stringify en (search_exception e)
             | Response_not_ok status (Throws e) \<Rightarrow> JSON_stringify en (search_exception e)
             | Response_not_ok status (Returns errorText) \<Rightarrow>
                 JSON_stringify en (search_failed en status errorText)
             | Response_ok (Throws e) \<Rightarrow> JSON_stringify en (search_exception e)
             | Response_ok (Returns data) \<Rightarrow> JSON_stringify en data))"

text \<open>
  The result pushed for one call that passed the guard, payload \<open>a\<close>. The provider
  cannot reject; the \<open>catch\<close> block of the dispatcher is reached when what the
  provider returns does not parse.
\<close>

definition search_output :: "env \<Rightarrow> function_call \<Rightarrow> js_value \<Rightarrow> tool_output" where
  "search_output en call a =
     (case JSON_parse en (performWebSearch en (queryForSearch en a)) of
        None \<Rightarrow> failed_output call
      | Some r \<Rightarrow> \<lparr>functionCall = call, output_name = ''web_search'', response = r\<rparr>)"

text \<open>The loop over the calls of a chunk, with the outputs collected so far.\<close>

fun dispatch_calls ::
  "env \<Rightarrow> function_call list \<Rightarrow> tool_output list \<times> handler \<Rightarrow> tool_output list \<times> handler"
where
  "dispatch_calls en [] acc = acc"
| "dispatch_calls en (call # calls) (toolOutputs, s) =
     (case args call of
        None \<Rightarrow> dispatch_calls en calls (toolOutputs, s)
      | Some a \<Rightarrow>
          if name call = Some ''web_search'' \<and> truthy a then
            dispatch_calls en calls
              (toolOutputs @ [search_output en call a],
               emit (Web_search (queryForSearch en a)) s)
          else dispatch_calls en calls (toolOutputs, s))"

definition handleFunctionCalls ::
  "env \<Rightarrow> function_call list \<Rightarrow> handler \<Rightarrow> tool_output list \<times> handler"
where
  "handleFunctionCalls en calls s =
     dispatch_calls en calls
       ([], emit (Send_event
                    (Indicator_update AI_STATE_EXTERNAL_SOURCES (cid (message s))
                       (message_id (message s)))) s)"

subsection \<open>The run\<close>

text \<open>
  The body of the loop for one chunk; \<open>now\<close> is what the clock reads when the
  text of the chunk is handled. The outputs of the dispatcher are dropped, as in the
  source.
\<close>

definition after_calls :: "env \<Rightarrow> handler \<Rightarrow> chunk \<Rightarrow> handler" where
  "after_calls en s c =
     (case functionCalls c of
        None \<Rightarrow> s
      | Some calls \<Rightarrow> if calls \<noteq> [] then snd (handleFunctionCalls en calls s) else s)"

definition flush :: "int \<Rightarrow> handler \<Rightarrow> handler" where
  "flush now s =
     (if now - last_update_time s > 1000 then
        (emit (Partial_update (Throttled now) (message_id (message s)) (message_text s)) s)
          \<lparr>last_update_time := now\<rparr>
      else s)"

definition add_text :: "string \<Rightarrow> int \<Rightarrow> handler \<Rightarrow> handler" where
  "add_text t now s =
     (let s1 = flush now (s\<lparr>message_text := message_text s @ t\<rparr>)
      in s1\<lparr>chunk_counter := chunk_counter s1 + 1\<rparr>)"

definition loop_body :: "env \<Rightarrow> handler \<Rightarrow> chunk \<Rightarrow> int \<Rightarrow> handler" where
  "loop_body en s c now =
     (let s1 = after_calls en s c in
      case chunk_text c of
        None \<Rightarrow> s1
      | Some t \<Rightarrow> if t \<noteq> [] then add_text t now s1 else s1)"

text \<open>
  What is delivered to a handler while it runs: the next chunk of the stream, with
  the clock reading for it, or a stop event from the chat client.
\<close>

datatype delivery = Chunk chunk int | Stop stop_event

text \<open>
  How the stream ends: exhausted, or throwing; then with the suspensions of the two
  awaited calls of the error handler.
\<close>

datatype ending = Exhausted | Fault thrown suspension suspension

fun deliver :: "env \<Rightarrow> handler \<Rightarrow> delivery \<Rightarrow> handler" where
  "deliver en s (Chunk c now) = loop_body en s c now"
| "deliver en s (Stop ev) = handleStopGenerating s ev"

fun drain :: "env \<Rightarrow> handler \<Rightarrow> delivery list \<Rightarrow> handler" where
  "drain en s [] = s"
| "drain en s (d # ds) = drain en (deliver en s d) ds"

text \<open>The statements after the loop, reached when the stream is exhausted.\<close>

definition finish :: "handler \<Rightarrow> handler" where
  "finish s =
     emit (Send_event (Indicator_clear (cid (message s)) (message_id (message s))))
       (emit (Partial_update Final (message_id (message s)) (message_text s)) s)"

text \<open>
  \<open>run\<close>: the loop, then either the statements after it or the \<open>catch\<close>
  block, then the \<open>finally\<close> block, which is reached also when the error handler
  rejects. \<open>run_rejects\<close> tells whether the promise of \<open>run\<close> is rejected:
  it is when the error handler rejects, since nothing catches that.
\<close>

definition run :: "env \<Rightarrow> handler \<Rightarrow> delivery list \<Rightarrow> ending \<Rightarrow> handler" where
  "run en s ds e =
     (let s1 = drain en s ds in
      dispose
        (case e of
           Exhausted \<Rightarrow> finish s1
         | Fault error a1 a2 \<Rightarrow> fst (handleError s1 error a1 a2)))"

definition run_rejects :: "env \<Rightarrow> handler \<Rightarrow> delivery list \<Rightarrow> ending \<Rightarrow> bool" where
  "run_rejects en s ds e =
     (case e of
        Exhausted \<Rightarrow> False
      | Fault error a1 a2 \<Rightarrow> snd (handleError (drain en s ds) error a1 a2))"

subsection \<open>Reading a trace\<close>

text \<open>The texts of the message updates issued, and the clock readings of the throttled ones.\<close>

fun update_texts :: "effect \<Rightarrow> string list" where
  "update_texts (Partial_update site i t) = [t]"
| "update_texts e = []"

definition text_updates :: "effect list \<Rightarrow> string list" where
  "text_updates es = concat (map update_texts es)"

fun flush_times :: "effect \<Rightarrow> int list" where
  "flush_times (Partial_update (Throttled now) i t) = [now]"
| "flush_times e = []"

definition throttled_times :: "effect list \<Rightarrow> int list" where
  "throttled_times es = concat (map flush_times es)"

text \<open>The text fragment a delivery carries; their concatenation in stream order.\<close>

fun fragment :: "delivery \<Rightarrow> string" where
  "fragment (Chunk c now) = (case chunk_text c of None \<Rightarrow> [] | Some t \<Rightarrow> t)"
| "fragment (Stop ev) = []"

definition fragments :: "delivery list \<Rightarrow> string" where
  "fragments ds = concat (map fragment ds)"

text \<open>
  What one call of a chunk adds: the queries handed to the provider, and the outputs
  pushed.
\<close>

definition queries_for :: "env \<Rightarrow> function_call \<Rightarrow> string list" where
  "queries_for en call =
     (case args call of
        None \<Rightarrow> []
      | Some a \<Rightarrow> if dispatched call then [queryForSearch en a] else [])"

definition results_for :: "env \<Rightarrow> function_call \<Rightarrow> tool_output list" where
  "results_for en call =
     (case args call of
        None \<Rightarrow> []
      | Some a \<Rightarrow> if dispatched call then [search_output en call a] else [])"

text \<open>
  Recognisers of the status events in a trace.
\<close>

fun error_status :: "effect \<Rightarrow> bool" where
  "error_status (Send_event (Indicator_update AI_STATE_ERROR c i)) = True"
| "error_status e = False"

fun external_status :: "effect \<Rightarrow> bool" where
  "external_status (Send_event (Indicator_update AI_STATE_EXTERNAL_SOURCES c i)) = True"
| "external_status e = False"

fun status_clear :: "effect \<Rightarrow> bool" where
  "status_clear (Send_event (Indicator_clear c i)) = True"
| "status_clear e = False"

text \<open>The calls the loop body can issue, and the calls of the stop handler.\<close>

fun chunk_effect :: "effect \<Rightarrow> bool" where
  "chunk_effect (Send_event (Indicator_update AI_STATE_EXTERNAL_SOURCES c i)) = True"
| "chunk_effect (Web_search q) = True"
| "chunk_effect (Partial_update (Throttled now) i t) = True"
| "chunk_effect e = False"

fun stop_effect :: "effect \<Rightarrow> bool" where
  "stop_effect (Send_event (Indicator_clear c i)) = True"
| "stop_effect Client_off = True"
| "stop_effect On_dispose = True"
| "stop_effect e = False"

text \<open>
  The unsubscription and the release callback are in the trace once if the handler is
  done, and not at all otherwise.
\<close>

definition disposed_once :: "handler \<Rightarrow> bool" where
  "disposed_once s =
     (count_list (trace s) Client_off = (if is_done s then 1 else 0) \<and>
      count_list (trace s) On_dispose = (if is_done s then 1 else 0))"

text \<open>The texts sent so far, followed by the accumulated text, form a chain of prefixes.\<close>

definition prefix_growing :: "handler \<Rightarrow> bool" where
  "prefix_growing s = successively prefix (text_updates (trace s) @ [message_text s])"

text \<open>
  Consecutive throttled updates are more than 1000 apart, and the last one was issued
  at \<open>last_update_time\<close>.
\<close>

definition throttle_kept :: "handler \<Rightarrow> bool" where
  "throttle_kept s =
     (successively (\<lambda>t1 t2. 1000 < t2 - t1) (throttled_times (trace s)) \<and>
      (throttled_times (trace s) = [] \<or>
       last (throttled_times (trace s)) = last_update_time s))"

text \<open>The stop events among the deliveries of a run.\<close>

fun stop_events :: "delivery list \<Rightarrow> stop_event list" where
  "stop_events [] = []"
| "stop_events (Chunk c now # ds) = stop_events ds"
| "stop_events (Stop ev # ds) = ev # stop_events ds"

subsection \<open>A sample host\<close>

text \<open>
  A host for the examples below. Its serializer and its parser are tabulated on the
  few values the examples use. Its key is set; the search for \<open>cats\<close> is answered,
  every other request is rejected by the network.
\<close>

definition example_json :: "(js_value \<times> string) list" where
  \<open>example_json =
     [(JObj [(''q'', JStr ''cats'')], ''{"q":"cats"}''),
      (JObj [(''answer'', JStr ''yes'')], ''{"answer":"yes"}''),
      (search_exception (Error_instance ''fetch failed''),
       ''{"error":"An exception occurred during the search.","message":"fetch failed"}''),
      (not_configured,
       ''{"error":"Web search is not available. API key not configured."}'')]\<close>

definition example_env :: env where
  "example_env =
     \<lparr>js_String = (\<lambda>v. case v of
                          JStr t \<Rightarrow> t
                        | JNum n \<Rightarrow> (if n = 42 then ''42'' else if n = 500 then ''500'' else ''0'')
                        | _ \<Rightarrow> ''null''),
      JSON_stringify = (\<lambda>v. case map_of example_json v of Some t \<Rightarrow> t | None \<Rightarrow> ''null''),
      JSON_parse = map_of (map (\<lambda>(v, t). (t, v)) example_json),
      TAVILY_API_KEY = Some ''tvly-example'',
      fetch = (\<lambda>key query.
                 if query = ''cats'' then Response_ok (Returns (JObj [(''answer'', JStr ''yes'')]))
                 else Fetch_rejects (Error_instance ''fetch failed''))\<rparr>"

definition example_message :: message_response where
  "example_message = \<lparr>cid = Some ''messaging:ai'', message_id = ''m1''\<rparr>"

section \<open>Properties\<close>

subsection \<open>Field and trace equations of the operations\<close>

lemma trace_emit [simp]: "trace (emit e s) = trace s @ [e]"
  and is_done_emit [simp]: "is_done (emit e s) = is_done s"
  and message_emit [simp]: "message (emit e s) = message s"
  and message_text_emit [simp]: "message_text (emit e s) = message_text s"
  and last_update_time_emit [simp]: "last_update_time (emit e s) = last_update_time s"
  by (simp_all add: emit_def)

lemma dispose_done [simp]: "is_done (dispose s)"
  by (simp add: dispose_def)

lemma dispose_when_done: "is_done s \<Longrightarrow> dispose s = s"
  by (simp add: dispose_def)

lemma dispose_fields [simp]:
  "message (dispose s) = message s"
  "message_text (dispose s) = message_text s"
  "last_update_time (dispose s) = last_update_time s"
  by (simp_all add: dispose_def)

lemma trace_dispose:
  "trace (dispose s) = trace s @ (if is_done s then [] else [Client_off, On_dispose])"
  by (simp add: dispose_def)

lemma dispatch_calls_eq:
  "dispatch_calls en calls (outs, s) =
     (outs @ concat (map (results_for en) calls),
      s\<lparr>trace := trace s @ map Web_search (concat (map (queries_for en) calls))\<rparr>)"
proof (induction calls arbitrary: outs s)
  case Nil
  show ?case by simp
next
  case (Cons call calls)
  show ?case
  proof (cases "args call")
    case None
    then show ?thesis
      by (simp add: Cons.IH results_for_def queries_for_def)
  next
    case (Some a)
    then show ?thesis
      by (simp add: Cons.IH results_for_def queries_for_def dispatched_def emit_def)
  qed
qed

lemma handleFunctionCalls_eq:
  "handleFunctionCalls en calls s =
     (concat (map (results_for en) calls),
      s\<lparr>trace := trace s @
           Send_event (Indicator_update AI_STATE_EXTERNAL_SOURCES (cid (message s))
             (message_id (message s))) #
           map Web_search (concat (map (queries_for en) calls))\<rparr>)"
  by (simp add: handleFunctionCalls_def dispatch_calls_eq emit_def)

lemma after_calls_eq:
  "after_calls en s c =
     (case functionCalls c of
        None \<Rightarrow> s
      | Some calls \<Rightarrow>
          if calls \<noteq> [] then
            s\<lparr>trace := trace s @
                 Send_event (Indicator_update AI_STATE_EXTERNAL_SOURCES (cid (message s))
                   (message_id (message s))) #
                 map Web_search (concat (map (queries_for en) calls))\<rparr>
          else s)"
  by (simp add: after_calls_def handleFunctionCalls_eq split: option.splits)


lemma after_calls_fields [simp]:
  "is_done (after_calls en s c) = is_done s"
  "message (after_calls en s c) = message s"
  "message_text (after_calls en s c) = message_text s"
  "last_update_time (after_calls en s c) = last_update_time s"
  by (simp_all add: after_calls_eq split: option.splits)

lemma flush_fields [simp]:
  "is_done (flush now s) = is_done s"
  "message (flush now s) = message s"
  "message_text (flush now s) = message_text s"
  by (simp_all add: flush_def)

lemma trace_flush:
  "trace (flush now s) =
     trace s @
       (if now - last_update_time s > 1000
        then [Partial_update (Throttled now) (message_id (message s)) (message_text s)]
        else [])"
  by (simp add: flush_def)

lemma last_update_time_flush:
  "last_update_time (flush now s) =
     (if now - last_update_time s > 1000 then now else last_update_time s)"
  by (simp add: flush_def)

lemma add_text_fields [simp]:
  "is_done (add_text t now s) = is_done s"
  "message (add_text t now s) = message s"
  "message_text (add_text t now s) = message_text s @ t"
  by (simp_all add: add_text_def Let_def)

lemma trace_add_text:
  "trace (add_text t now s) =
     trace s @
       (if now - last_update_time s > 1000
        then [Partial_update (Throttled now) (message_id (message s)) (message_text s @ t)]
        else [])"
  by (simp add: add_text_def Let_def trace_flush)

lemma last_update_time_add_text:
  "last_update_time (add_text t now s) =
     (if now - last_update_time s > 1000 then now else last_update_time s)"
  by (simp add: add_text_def Let_def last_update_time_flush)

lemma loop_body_fields [simp]:
  "is_done (loop_body en s c now) = is_done s"
  "message (loop_body en s c now) = message s"
  by (simp_all add: loop_body_def Let_def split: option.splits)

lemma message_text_loop_body:
  "message_text (loop_body en s c now) = message_text s @ fragment (Chunk c now)"
  by (simp add: loop_body_def Let_def split: option.splits)

lemma handleStopGenerating_fields [simp]:
  "message (handleStopGenerating s ev) = message s"
  "message_text (handleStopGenerating s ev) = message_text s"
  "last_update_time (handleStopGenerating s ev) = last_update_time s"
  by (simp_all add: handleStopGenerating_def)

lemma handleStopGenerating_done: "is_done s \<Longrightarrow> is_done (handleStopGenerating s ev)"
  by (simp add: handleStopGenerating_def)

lemma deliver_message [simp]: "message (deliver en s d) = message s"
  by (cases d) simp_all

lemma deliver_done: "is_done s \<Longrightarrow> is_done (deliver en s d)"
  by (cases d) (simp_all add: handleStopGenerating_done)

lemma drain_message [simp]: "message (drain en s ds) = message s"
  by (induction ds arbitrary: s) simp_all

lemma drain_done: "is_done s \<Longrightarrow> is_done (drain en s ds)"
  by (induction ds arbitrary: s) (simp_all add: deliver_done)

lemma message_text_deliver: "message_text (deliver en s d) = message_text s @ fragment d"
  by (cases d) (simp_all add: message_text_loop_body)

lemma message_text_drain: "message_text (drain en s ds) = message_text s @ fragments ds"
  by (induction ds arbitrary: s) (simp_all add: message_text_deliver fragments_def)


lemma trace_loop_body:
  "\<exists>es. trace (loop_body en s c now) = trace s @ es \<and> list_all chunk_effect es"
  by (simp add: loop_body_def Let_def trace_add_text after_calls_eq list_all_iff
      split: option.splits)

lemma trace_handleStopGenerating:
  "trace (handleStopGenerating s ev) =
     trace s @
       (if is_done s \<or> event_message_id ev \<noteq> Some (message_id (message s)) then []
        else [Send_event (Indicator_clear (cid (message s)) (message_id (message s))),
              Client_off, On_dispose])"
  by (simp add: handleStopGenerating_def trace_dispose)

lemma is_done_handleStopGenerating:
  "is_done (handleStopGenerating s ev) =
     (is_done s \<or> event_message_id ev = Some (message_id (message s)))"
  by (auto simp add: handleStopGenerating_def)

lemma trace_deliver:
  "\<exists>es. trace (deliver en s d) = trace s @ es \<and>
        list_all (\<lambda>e. chunk_effect e \<or> stop_effect e) es \<and>
        (\<not> is_done (deliver en s d) \<longrightarrow> list_all chunk_effect es)"
proof (cases d)
  case (Chunk c now)
  obtain es where "trace (loop_body en s c now) = trace s @ es" "list_all chunk_effect es"
    using trace_loop_body by blast
  with Chunk show ?thesis
    by (auto simp add: list_all_iff)
next
  case (Stop ev)
  then show ?thesis
    by (simp add: trace_handleStopGenerating is_done_handleStopGenerating)
qed

lemma trace_drain:
  "\<exists>es. trace (drain en s ds) = trace s @ es \<and>
        list_all (\<lambda>e. chunk_effect e \<or> stop_effect e) es \<and>
        (\<not> is_done (drain en s ds) \<longrightarrow> list_all chunk_effect es)"
proof (induction ds arbitrary: s)
  case Nil
  show ?case by simp
next
  case (Cons d ds)
  obtain es1 where es1: "trace (deliver en s d) = trace s @ es1"
      "list_all (\<lambda>e. chunk_effect e \<or> stop_effect e) es1"
      "\<not> is_done (deliver en s d) \<longrightarrow> list_all chunk_effect es1"
    using trace_deliver by blast
  obtain es2 where es2: "trace (drain en (deliver en s d) ds) = trace (deliver en s d) @ es2"
      "list_all (\<lambda>e. chunk_effect e \<or> stop_effect e) es2"
      "\<not> is_done (drain en (deliver en s d) ds) \<longrightarrow> list_all chunk_effect es2"
    using Cons.IH by blast
  have "\<not> is_done (drain en (deliver en s d) ds) \<longrightarrow> \<not> is_done (deliver en s d)"
    using drain_done by blast
  with es1 es2 show ?case
    by (intro exI [of _ "es1 @ es2"]) simp
qed

lemma count_list_chunk_effects:
  "list_all chunk_effect es \<Longrightarrow> \<not> chunk_effect x \<Longrightarrow> count_list es x = 0"
  by (induction es) auto

lemma disposed_once_loop_body:
  "disposed_once s \<Longrightarrow> disposed_once (loop_body en s c now)"
proof -
  assume a: "disposed_once s"
  obtain es where es: "trace (loop_body en s c now) = trace s @ es" "list_all chunk_effect es"
    using trace_loop_body by blast
  have "count_list es Client_off = 0" "count_list es On_dispose = 0"
    using es(2) by (simp_all add: count_list_chunk_effects)
  with a es(1) show ?thesis
    by (simp add: disposed_once_def)
qed

lemma disposed_once_dispose: "disposed_once s \<Longrightarrow> disposed_once (dispose s)"
  by (simp add: disposed_once_def trace_dispose)

lemma disposed_once_handleStopGenerating:
  "disposed_once s \<Longrightarrow> disposed_once (handleStopGenerating s ev)"
  by (simp add: disposed_once_def trace_handleStopGenerating is_done_handleStopGenerating)

lemma disposed_once_deliver: "disposed_once s \<Longrightarrow> disposed_once (deliver en s d)"
  by (cases d) (simp_all add: disposed_once_loop_body disposed_once_handleStopGenerating)

lemma disposed_once_drain: "disposed_once s \<Longrightarrow> disposed_once (drain en s ds)"
  by (induction ds arbitrary: s) (simp_all add: disposed_once_deliver)

lemma disposed_once_finish: "disposed_once s \<Longrightarrow> disposed_once (finish s)"
  by (simp add: disposed_once_def finish_def)

lemma disposed_once_handle_stops: "disposed_once s \<Longrightarrow> disposed_once (handle_stops s evs)"
  by (induction evs arbitrary: s) (simp_all add: disposed_once_handleStopGenerating)

lemma disposed_once_emit:
  "disposed_once s \<Longrightarrow> e \<noteq> Client_off \<Longrightarrow> e \<noteq> On_dispose \<Longrightarrow> disposed_once (emit e s)"
  by (simp add: disposed_once_def)

lemma disposed_once_handleError:
  "disposed_once s \<Longrightarrow> disposed_once (fst (handleError s error a1 a2))"
  by (simp add: handleError_def Let_def disposed_once_handle_stops disposed_once_emit
      disposed_once_dispose split: thrown.splits)

lemma disposed_once_constructor: "disposed_once (constructor m)"
  by (simp add: disposed_once_def constructor_def)

lemma disposed_once_run: "disposed_once s \<Longrightarrow> disposed_once (run en s ds e)"
  by (cases e)
    (simp_all add: run_def Let_def disposed_once_dispose disposed_once_finish
      disposed_once_handleError disposed_once_drain)

lemma is_done_run [simp]: "is_done (run en s ds e)"
  by (simp add: run_def Let_def)

lemma drain_stops_when_done: "is_done s \<Longrightarrow> drain en s (map Stop evs) = s"
  by (induction evs) (simp_all add: handleStopGenerating_def)

text \<open>
  C1: whatever is delivered during a run (chunks, stop events, in any order), however
  the stream ends (exhausted or throwing) and whatever stop events follow, the chat
  client is unsubscribed once and the release callback is called once. The first call
  of \<open>dispose\<close> performs both; a call on a handler that is done changes nothing.
\<close>

theorem dispose_effects_exactly_once:
  "count_list (trace (run en (constructor m) ds e)) Client_off = 1 \<and>
   count_list (trace (run en (constructor m) ds e)) On_dispose = 1 \<and>
   is_done (run en (constructor m) ds e) \<and>
   drain en (run en (constructor m) ds e) (map Stop evs) = run en (constructor m) ds e \<and>
   (\<not> is_done s \<longrightarrow> trace (dispose s) = trace s @ [Client_off, On_dispose]) \<and>
   (is_done s \<longrightarrow> dispose s = s) \<and>
   dispose (dispose s) = dispose s"
proof -
  have "disposed_once (run en (constructor m) ds e)"
    by (simp add: disposed_once_run disposed_once_constructor)
  then have "count_list (trace (run en (constructor m) ds e)) Client_off = 1"
    and "count_list (trace (run en (constructor m) ds e)) On_dispose = 1"
    by (simp_all add: disposed_once_def)
  moreover have "drain en (run en (constructor m) ds e) (map Stop evs) = run en (constructor m) ds e"
    by (simp add: drain_stops_when_done)
  ultimately show ?thesis
    by (simp add: trace_dispose dispose_when_done)
qed

theorem dispose_effects_exactly_once_witness:
  "count_list (trace (run example_env (constructor example_message)
      [Chunk \<lparr>functionCalls = None, chunk_text = Some ''Hel''\<rparr> 5000,
       Stop \<lparr>event_message_id = Some ''m1''\<rparr>]
      (Fault (Thrown \<lparr>error_message = Some ''boom'', error_toString = ''Error: boom''\<rparr>)
         \<lparr>meanwhile = [], resolves = True\<rparr> \<lparr>meanwhile = [], resolves = True\<rparr>))) Client_off = 1 \<and>
   count_list (trace (run example_env (constructor example_message)
      [Chunk \<lparr>functionCalls = None, chunk_text = Some ''Hel''\<rparr> 5000,
       Stop \<lparr>event_message_id = Some ''m1''\<rparr>]
      (Fault (Thrown \<lparr>error_message = Some ''boom'', error_toString = ''Error: boom''\<rparr>)
         \<lparr>meanwhile = [], resolves = True\<rparr> \<lparr>meanwhile = [], resolves = True\<rparr>))) On_dispose = 1 \<and>
   \<not> is_done (constructor example_message) \<and>
   trace (dispose (constructor example_message)) = [Client_on, Client_off, On_dispose] \<and>
   is_done (dispose (constructor example_message)) \<and>
   dispose (dispose (constructor example_message)) = dispose (constructor example_message)"
  using dispose_effects_exactly_once [of example_env example_message
      "[Chunk \<lparr>functionCalls = None, chunk_text = Some ''Hel''\<rparr> 5000,
        Stop \<lparr>event_message_id = Some ''m1''\<rparr>]"
      "Fault (Thrown \<lparr>error_message = Some ''boom'', error_toString = ''Error: boom''\<rparr>)
         \<lparr>meanwhile = [], resolves = True\<rparr> \<lparr>meanwhile = [], resolves = True\<rparr>" "[]"
      "constructor example_message"]
    dispose_effects_exactly_once [of example_env example_message "[]" Exhausted "[]"
      "dispose (constructor example_message)"]
  by (simp add: constructor_def)

text \<open>
  C9: a stop event whose message id is not the id of the message of the run, or that
  reaches a handler that is done, leaves the handler as it is: nothing is sent, nothing
  is disposed, no field changes.
\<close>

theorem stop_ignored:
  "is_done s \<or> event_message_id ev \<noteq> Some (message_id (message s)) \<Longrightarrow>
   handleStopGenerating s ev = s"
  by (simp add: handleStopGenerating_def)

theorem stop_ignored_witness:
  "event_message_id \<lparr>event_message_id = Some ''m2''\<rparr> \<noteq> Some (message_id (message (constructor example_message))) \<and>
   handleStopGenerating (constructor example_message) \<lparr>event_message_id = Some ''m2''\<rparr> =
     constructor example_message \<and>
   is_done (dispose (constructor example_message)) \<and>
   handleStopGenerating (dispose (constructor example_message)) \<lparr>event_message_id = Some ''m1''\<rparr> =
     dispose (constructor example_message)"
  using stop_ignored [of "constructor example_message" "\<lparr>event_message_id = Some ''m2''\<rparr>"]
    stop_ignored [of "dispose (constructor example_message)" "\<lparr>event_message_id = Some ''m1''\<rparr>"]
  by (simp add: constructor_def example_message_def)

lemma text_updates_append [simp]:
  "text_updates (es @ fs) = text_updates es @ text_updates fs"
  by (simp add: text_updates_def)

lemma text_updates_Cons [simp]: "text_updates (e # es) = update_texts e @ text_updates es"
  by (simp add: text_updates_def)

lemma text_updates_Nil [simp]: "text_updates [] = []"
  by (simp add: text_updates_def)

lemma text_updates_searches [simp]: "text_updates (map Web_search qs) = []"
  by (induction qs) simp_all

lemma throttled_times_append [simp]:
  "throttled_times (es @ fs) = throttled_times es @ throttled_times fs"
  by (simp add: throttled_times_def)

lemma throttled_times_Cons [simp]:
  "throttled_times (e # es) = flush_times e @ throttled_times es"
  by (simp add: throttled_times_def)

lemma throttled_times_Nil [simp]: "throttled_times [] = []"
  by (simp add: throttled_times_def)

lemma throttled_times_searches [simp]: "throttled_times (map Web_search qs) = []"
  by (induction qs) simp_all

lemma text_updates_after_calls [simp]:
  "text_updates (trace (after_calls en s c)) = text_updates (trace s)"
  by (simp add: after_calls_eq split: option.splits)

lemma throttled_times_after_calls [simp]:
  "throttled_times (trace (after_calls en s c)) = throttled_times (trace s)"
  by (simp add: after_calls_eq split: option.splits)

lemma chain_last_grows:
  "successively prefix (us @ [a]) \<Longrightarrow> prefix a b \<Longrightarrow> successively prefix (us @ [b])"
  by (auto simp add: successively_append_iff intro: prefix_order.trans)

lemma chain_repeat_last:
  "successively prefix (us @ [a]) \<Longrightarrow> successively prefix (us @ [a, a])"
  by (simp add: successively_append_iff)

lemma text_updates_loop_body:
  "text_updates (trace (loop_body en s c now)) =
     text_updates (trace s) @
       (if fragment (Chunk c now) \<noteq> [] \<and> 1000 < now - last_update_time s
        then [message_text s @ fragment (Chunk c now)] else [])"
  by (simp add: loop_body_def Let_def trace_add_text split: option.splits)

lemma throttled_times_loop_body:
  "throttled_times (trace (loop_body en s c now)) =
     throttled_times (trace s) @
       (if fragment (Chunk c now) \<noteq> [] \<and> 1000 < now - last_update_time s then [now] else [])"
  by (simp add: loop_body_def Let_def trace_add_text split: option.splits)

lemma last_update_time_loop_body:
  "last_update_time (loop_body en s c now) =
     (if fragment (Chunk c now) \<noteq> [] \<and> 1000 < now - last_update_time s then now
      else last_update_time s)"
  by (simp add: loop_body_def Let_def last_update_time_add_text split: option.splits)

lemma prefix_growing_loop_body:
  assumes "prefix_growing s"
  shows "prefix_growing (loop_body en s c now)"
proof -
  let ?t = "message_text s @ fragment (Chunk c now)"
  have 1: "successively prefix (text_updates (trace s) @ [?t])"
    using assms chain_last_grows [of "text_updates (trace s)" "message_text s" ?t]
    by (simp add: prefix_growing_def)
  then have 2: "successively prefix (text_updates (trace s) @ [?t, ?t])"
    by (rule chain_repeat_last)
  from 1 2 show ?thesis
    by (simp add: prefix_growing_def text_updates_loop_body message_text_loop_body)
qed

lemma text_updates_handleStopGenerating [simp]:
  "text_updates (trace (handleStopGenerating s ev)) = text_updates (trace s)"
  by (simp add: trace_handleStopGenerating)

lemma throttled_times_handleStopGenerating [simp]:
  "throttled_times (trace (handleStopGenerating s ev)) = throttled_times (trace s)"
  by (simp add: trace_handleStopGenerating)

lemma prefix_growing_deliver: "prefix_growing s \<Longrightarrow> prefix_growing (deliver en s d)"
  by (cases d) (simp_all add: prefix_growing_loop_body, simp add: prefix_growing_def)

lemma prefix_growing_drain: "prefix_growing s \<Longrightarrow> prefix_growing (drain en s ds)"
  by (induction ds arbitrary: s) (simp_all add: prefix_growing_deliver)

lemma prefix_growing_constructor: "prefix_growing (constructor m)"
  by (simp add: prefix_growing_def constructor_def)

lemma trace_run_Exhausted:
  "trace (run en s ds Exhausted) =
     trace (drain en s ds) @
       Partial_update Final (message_id (message s)) (message_text s @ fragments ds) #
       Send_event (Indicator_clear (cid (message s)) (message_id (message s))) #
       (if is_done (drain en s ds) then [] else [Client_off, On_dispose])"
  by (simp add: run_def Let_def finish_def trace_dispose message_text_drain)

text \<open>
  C2: in a run whose stream is exhausted without a fault, whatever stop events are
  delivered on the way, each text sent for the message is a prefix of the next one sent
  (so no shorter than the one before), and the last one, sent after the loop, is the
  concatenation in stream order of the text fragments of all the chunks.
\<close>

theorem prefix_growth:
  "successively prefix (text_updates (trace (run en (constructor m) ds Exhausted))) \<and>
   successively (\<lambda>a b. length a \<le> length b)
     (text_updates (trace (run en (constructor m) ds Exhausted))) \<and>
   text_updates (trace (run en (constructor m) ds Exhausted)) =
     text_updates (trace (drain en (constructor m) ds)) @ [fragments ds] \<and>
   last (text_updates (trace (run en (constructor m) ds Exhausted))) = fragments ds \<and>
   trace (run en (constructor m) ds Exhausted) =
     trace (drain en (constructor m) ds) @
       Partial_update Final (message_id m) (fragments ds) #
       Send_event (Indicator_clear (cid m) (message_id m)) #
       (if is_done (drain en (constructor m) ds) then [] else [Client_off, On_dispose])"
proof -
  let ?r = "run en (constructor m) ds Exhausted"
  let ?d = "drain en (constructor m) ds"
  have tr: "trace ?r =
     trace ?d @ Partial_update Final (message_id m) (fragments ds) #
       Send_event (Indicator_clear (cid m) (message_id m)) #
       (if is_done ?d then [] else [Client_off, On_dispose])"
    by (simp add: trace_run_Exhausted) (simp add: constructor_def)
  have mt: "message_text ?d = fragments ds"
    by (simp add: message_text_drain) (simp add: constructor_def)
  have us: "text_updates (trace ?r) = text_updates (trace ?d) @ [fragments ds]"
    by (simp add: tr)
  have "prefix_growing ?d"
    by (simp add: prefix_growing_drain prefix_growing_constructor)
  then have ch: "successively prefix (text_updates (trace ?r))"
    by (simp add: prefix_growing_def us mt)
  then have "successively (\<lambda>a b. length a \<le> length b) (text_updates (trace ?r))"
    by (rule successively_mono) (simp add: prefix_length_le)
  with ch us tr show ?thesis
    by simp
qed

theorem prefix_growth_witness:
  "last (text_updates (trace (run example_env (constructor example_message)
     [Chunk \<lparr>functionCalls = None, chunk_text = Some ''Hel''\<rparr> 5000,
      Chunk \<lparr>functionCalls = None, chunk_text = Some ''lo ''\<rparr> 5400,
      Stop \<lparr>event_message_id = Some ''m2''\<rparr>,
      Chunk \<lparr>functionCalls =
               Some [\<lparr>name = Some ''web_search'',
                      args = Some (JObj [(''query'', JStr ''cats'')])\<rparr>],
             chunk_text = None\<rparr> 5800,
      Chunk \<lparr>functionCalls = None, chunk_text = Some ''done''\<rparr> 6100]
     Exhausted))) = ''Hello done''"
  using prefix_growth [of example_env example_message
     "[Chunk \<lparr>functionCalls = None, chunk_text = Some ''Hel''\<rparr> 5000,
      Chunk \<lparr>functionCalls = None, chunk_text = Some ''lo ''\<rparr> 5400,
      Stop \<lparr>event_message_id = Some ''m2''\<rparr>,
      Chunk \<lparr>functionCalls =
               Some [\<lparr>name = Some ''web_search'',
                      args = Some (JObj [(''query'', JStr ''cats'')])\<rparr>],
             chunk_text = None\<rparr> 5800,
      Chunk \<lparr>functionCalls = None, chunk_text = Some ''done''\<rparr> 6100]"]
  by (simp add: fragments_def)

lemma throttle_kept_loop_body:
  "throttle_kept s \<Longrightarrow> throttle_kept (loop_body en s c now)"
  by (auto simp add: throttle_kept_def throttled_times_loop_body last_update_time_loop_body
      successively_append_iff)

lemma throttle_kept_deliver: "throttle_kept s \<Longrightarrow> throttle_kept (deliver en s d)"
  by (cases d) (simp_all add: throttle_kept_loop_body, simp add: throttle_kept_def)

lemma throttle_kept_drain: "throttle_kept s \<Longrightarrow> throttle_kept (drain en s ds)"
  by (induction ds arbitrary: s) (simp_all add: throttle_kept_deliver)

lemma throttled_times_handle_stops [simp]:
  "throttled_times (trace (handle_stops s evs)) = throttled_times (trace s)"
  by (induction evs arbitrary: s) simp_all

lemma throttled_times_handleError [simp]:
  "throttled_times (trace (fst (handleError s error a1 a2))) = throttled_times (trace s)"
  by (simp add: handleError_def Let_def trace_dispose split: thrown.splits)

lemma throttled_times_run:
  "throttled_times (trace (run en s ds e)) = throttled_times (trace (drain en s ds))"
  by (cases e) (simp_all add: run_def Let_def finish_def trace_dispose)

text \<open>
  C5: the clock readings of two consecutive updates issued inside the loop are at least
  1000 apart, however the run ends. A chunk adds such an update only if at least 1000
  have passed since \<open>last_update_time\<close> (the test of the source is strict: more
  than 1000); below 1000 nothing is sent for the chunk and its text stays in
  \<open>message_text\<close> for a later update.
\<close>

theorem throttle_bound:
  "successively (\<lambda>t1 t2. 1000 \<le> t2 - t1)
     (throttled_times (trace (run en (constructor m) ds e))) \<and>
   (throttled_times (trace (loop_body en s c now)) \<noteq> throttled_times (trace s) \<longrightarrow>
      1000 \<le> now - last_update_time s) \<and>
   (now - last_update_time s < 1000 \<longrightarrow>
      throttled_times (trace (loop_body en s c now)) = throttled_times (trace s) \<and>
      text_updates (trace (loop_body en s c now)) = text_updates (trace s) \<and>
      message_text (loop_body en s c now) = message_text s @ fragment (Chunk c now)) \<and>
   throttled_times (trace (loop_body en s c now)) =
     throttled_times (trace s) @
       (if fragment (Chunk c now) \<noteq> [] \<and> 1000 < now - last_update_time s then [now] else [])"
proof -
  have "throttle_kept (constructor m)"
    by (simp add: throttle_kept_def constructor_def)
  then have "throttle_kept (drain en (constructor m) ds)"
    by (rule throttle_kept_drain)
  then have "successively (\<lambda>t1 t2. 1000 < t2 - t1)
      (throttled_times (trace (run en (constructor m) ds e)))"
    by (simp add: throttle_kept_def throttled_times_run)
  then have "successively (\<lambda>t1 t2. 1000 \<le> t2 - t1)
      (throttled_times (trace (run en (constructor m) ds e)))"
    by (rule successively_mono) simp
  then show ?thesis
    by (simp add: throttled_times_loop_body text_updates_loop_body message_text_loop_body)
qed

theorem throttle_bound_witness:
  "throttled_times (trace (loop_body example_env (constructor example_message)
      \<lparr>functionCalls = None, chunk_text = Some ''Hel''\<rparr> 5000)) \<noteq>
     throttled_times (trace (constructor example_message)) \<and>
   (1000::int) \<le> 5000 - last_update_time (constructor example_message) \<and>
   (400::int) - last_update_time (constructor example_message) < 1000 \<and>
   throttled_times (trace (loop_body example_env (constructor example_message)
      \<lparr>functionCalls = None, chunk_text = Some ''Hel''\<rparr> 400)) =
     throttled_times (trace (constructor example_message)) \<and>
   message_text (loop_body example_env (constructor example_message)
      \<lparr>functionCalls = None, chunk_text = Some ''Hel''\<rparr> 400) = ''Hel''"
  using throttle_bound [of example_env example_message "[]" Exhausted
      "constructor example_message" "\<lparr>functionCalls = None, chunk_text = Some ''Hel''\<rparr>" 5000]
    throttle_bound [of example_env example_message "[]" Exhausted
      "constructor example_message" "\<lparr>functionCalls = None, chunk_text = Some ''Hel''\<rparr>" 400]
  by (simp add: constructor_def)

lemma not_dispatched_nothing:
  "\<not> dispatched call \<Longrightarrow> queries_for en call = [] \<and> results_for en call = []"
  by (simp add: queries_for_def results_for_def split: option.splits)

lemma none_dispatched_nothing:
  "\<forall>call \<in> set calls. \<not> dispatched call \<Longrightarrow>
   concat (map (queries_for en) calls) = [] \<and> concat (map (results_for en) calls) = []"
  by (induction calls) (simp_all add: not_dispatched_nothing)

lemma external_status_searches [simp]: "filter external_status (map Web_search qs) = []"
  by (induction qs) simp_all

lemma trace_loop_body_eq:
  "trace (loop_body en s c now) =
     trace (after_calls en s c) @
       (if fragment (Chunk c now) \<noteq> [] \<and> 1000 < now - last_update_time s
        then [Partial_update (Throttled now) (message_id (message s))
                (message_text s @ fragment (Chunk c now))]
        else [])"
  by (simp add: loop_body_def Let_def trace_add_text split: option.splits)

text \<open>
  C10: a chunk with at least one function call sends one
  \<open>AI_STATE_EXTERNAL_SOURCES\<close> status for the message of the run, before any provider
  call of the chunk, and no second one. When none of the calls passes the guard of the
  dispatcher, the status is all the dispatcher does: no provider call, no output.
\<close>

theorem external_sources_signalled:
  fixes en s c now calls
  defines "lookup \<equiv>
     Send_event (Indicator_update AI_STATE_EXTERNAL_SOURCES (cid (message s))
       (message_id (message s)))"
  assumes "functionCalls c = Some calls" and "calls \<noteq> []"
  shows
  "trace (after_calls en s c) =
     trace s @ lookup # map Web_search (concat (map (queries_for en) calls)) \<and>
   filter external_status (trace (loop_body en s c now)) =
     filter external_status (trace s) @ [lookup] \<and>
   ((\<forall>call \<in> set calls. \<not> dispatched call) \<longrightarrow>
      handleFunctionCalls en calls s = ([], emit lookup s) \<and>
      trace (after_calls en s c) = trace s @ [lookup])"
proof (intro conjI impI)
  show ac: "trace (after_calls en s c) =
      trace s @ lookup # map Web_search (concat (map (queries_for en) calls))"
    using assms(2,3) by (simp add: after_calls_eq lookup_def)
  show "filter external_status (trace (loop_body en s c now)) =
      filter external_status (trace s) @ [lookup]"
    by (simp add: trace_loop_body_eq ac) (simp add: lookup_def)
  assume none: "\<forall>call \<in> set calls. \<not> dispatched call"
  show "handleFunctionCalls en calls s = ([], emit lookup s)"
    using none_dispatched_nothing [OF none, of en]
    by (simp add: handleFunctionCalls_eq lookup_def emit_def)
  show "trace (after_calls en s c) = trace s @ [lookup]"
    using none_dispatched_nothing [OF none, of en] by (simp add: ac)
qed

theorem external_sources_signalled_witness:
  "\<not> dispatched \<lparr>name = Some ''get_weather'', args = Some (JStr ''Paris'')\<rparr> \<and>
   \<not> dispatched \<lparr>name = Some ''web_search'', args = None\<rparr> \<and>
   filter external_status (trace (loop_body example_env (constructor example_message)
     \<lparr>functionCalls = Some [\<lparr>name = Some ''get_weather'', args = Some (JStr ''Paris'')\<rparr>,
                            \<lparr>name = Some ''web_search'', args = None\<rparr>],
      chunk_text = Some ''Hel''\<rparr> 5000)) =
     [Send_event (Indicator_update AI_STATE_EXTERNAL_SOURCES (Some ''messaging:ai'') ''m1'')] \<and>
   fst (handleFunctionCalls example_env
     [\<lparr>name = Some ''get_weather'', args = Some (JStr ''Paris'')\<rparr>,
      \<lparr>name = Some ''web_search'', args = None\<rparr>] (constructor example_message)) = [] \<and>
   trace (snd (handleFunctionCalls example_env
     [\<lparr>name = Some ''get_weather'', args = Some (JStr ''Paris'')\<rparr>,
      \<lparr>name = Some ''web_search'', args = None\<rparr>] (constructor example_message))) =
     [Client_on,
      Send_event (Indicator_update AI_STATE_EXTERNAL_SOURCES (Some ''messaging:ai'') ''m1'')]"
proof -
  let ?c1 = "\<lparr>name = Some ''get_weather'', args = Some (JStr ''Paris'')\<rparr>"
  let ?c2 = "\<lparr>name = Some ''web_search'', args = None\<rparr>"
  let ?c = "\<lparr>functionCalls = Some [?c1, ?c2], chunk_text = Some ''Hel''\<rparr>"
  have 1: "functionCalls ?c = Some [?c1, ?c2]" by simp
  have 2: "[?c1, ?c2] \<noteq> []" by simp
  have 3: "\<not> dispatched ?c1" "\<not> dispatched ?c2"
    by (simp_all add: dispatched_def)
  then have 4: "\<forall>call \<in> set [?c1, ?c2]. \<not> dispatched call" by simp
  note t = external_sources_signalled [OF 1 2, of example_env "constructor example_message" 5000]
  from t have "filter external_status
      (trace (loop_body example_env (constructor example_message) ?c 5000)) =
      filter external_status (trace (constructor example_message)) @
      [Send_event (Indicator_update AI_STATE_EXTERNAL_SOURCES
         (cid (message (constructor example_message)))
         (message_id (message (constructor example_message))))]"
    by blast
  moreover from t 4 have "handleFunctionCalls example_env [?c1, ?c2] (constructor example_message) =
      ([], emit (Send_event (Indicator_update AI_STATE_EXTERNAL_SOURCES
         (cid (message (constructor example_message)))
         (message_id (message (constructor example_message))))) (constructor example_message))"
    by blast
  ultimately show ?thesis
    using 3 by (simp add: constructor_def example_message_def)
qed

lemma results_for_dispatched:
  "dispatched call \<Longrightarrow> args call = Some a \<Longrightarrow> results_for en call = [search_output en call a]"
  by (simp add: results_for_def)

lemma functionCall_search_output [simp]: "functionCall (search_output en call a) = call"
  by (simp add: search_output_def failed_output_def split: sum.splits option.splits)

lemma functionCall_results_for:
  "map functionCall (results_for en call) = (if dispatched call then [call] else [])"
  by (simp add: results_for_def dispatched_def split: option.splits)

lemma length_results_for:
  "length (results_for en call) = (if dispatched call then 1 else 0)"
  by (simp add: results_for_def dispatched_def split: option.splits)

lemma functionCall_all_results:
  "map functionCall (concat (map (results_for en) calls)) = filter dispatched calls"
  by (induction calls) (simp_all add: functionCall_results_for)

text \<open>
  C4, as the code has it: the dispatcher pushes one output for each call that is named
  \<open>web_search\<close> and has a truthy payload, in the order of the calls and tied to its
  call; a call with another name, or with no payload or a falsy one, gets no output.
\<close>

theorem one_result_per_dispatched_call:
  "map functionCall (fst (handleFunctionCalls en calls s)) = filter dispatched calls \<and>
   fst (handleFunctionCalls en calls s) = concat (map (results_for en) calls) \<and>
   (dispatched call \<longrightarrow>
      length (results_for en call) = 1 \<and> map functionCall (results_for en call) = [call]) \<and>
   (\<not> dispatched call \<longrightarrow> results_for en call = []) \<and>
   dispatched call =
     (name call = Some ''web_search'' \<and> (\<exists>a. args call = Some a \<and> truthy a))"
proof -
  have "dispatched call =
     (name call = Some ''web_search'' \<and> (\<exists>a. args call = Some a \<and> truthy a))"
    by (cases "args call") (simp_all add: dispatched_def)
  then show ?thesis
    by (simp add: handleFunctionCalls_eq functionCall_all_results functionCall_results_for
        length_results_for not_dispatched_nothing del: One_nat_def)
qed

theorem one_result_per_dispatched_call_witness:
  "dispatched \<lparr>name = Some ''web_search'', args = Some (JObj [(''query'', JStr ''cats'')])\<rparr> \<and>
   map functionCall (results_for example_env
      \<lparr>name = Some ''web_search'', args = Some (JObj [(''query'', JStr ''cats'')])\<rparr>) =
     [\<lparr>name = Some ''web_search'', args = Some (JObj [(''query'', JStr ''cats'')])\<rparr>] \<and>
   \<not> dispatched \<lparr>name = Some ''web_search'', args = Some (JStr [])\<rparr> \<and>
   results_for example_env \<lparr>name = Some ''web_search'', args = Some (JStr [])\<rparr> = []"
  using one_result_per_dispatched_call [of example_env "[]" "constructor example_message"
      "\<lparr>name = Some ''web_search'', args = Some (JObj [(''query'', JStr ''cats'')])\<rparr>"]
    one_result_per_dispatched_call [of example_env "[]" "constructor example_message"
      "\<lparr>name = Some ''web_search'', args = Some (JStr [])\<rparr>"]
  by (simp add: dispatched_def)

text \<open>
  The claim as written fails: a call to another tool, and a \<open>web_search\<close> call
  without payload, are left without a result.
\<close>

theorem undispatched_call_has_no_result:
  "fst (handleFunctionCalls example_env
      [\<lparr>name = Some ''get_weather'', args = Some (JObj [(''city'', JStr ''Paris'')])\<rparr>,
       \<lparr>name = Some ''web_search'', args = None\<rparr>]
      (constructor example_message)) = []"
  by (simp add: handleFunctionCalls_def)

text \<open>
  C3 does not hold of the code. A stop event for the message of the run sends the clear
  and disposes, but the loop does not look at \<open>is_done\<close>: the chunk that follows is
  still dispatched and relayed, the final update is sent, and the clear is sent a second
  time.
\<close>

theorem chunks_relayed_after_stop:
  "trace (run example_env (constructor example_message)
      [Stop \<lparr>event_message_id = Some ''m1''\<rparr>,
       Chunk \<lparr>functionCalls =
                Some [\<lparr>name = Some ''web_search'',
                       args = Some (JObj [(''query'', JStr ''cats'')])\<rparr>],
              chunk_text = Some ''late''\<rparr> 5000]
      Exhausted) =
     [Client_on,
      Send_event (Indicator_clear (Some ''messaging:ai'') ''m1''),
      Client_off, On_dispose,
      Send_event (Indicator_update AI_STATE_EXTERNAL_SOURCES (Some ''messaging:ai'') ''m1''),
      Web_search ''cats'',
      Partial_update (Throttled 5000) ''m1'' ''late'',
      Partial_update Final ''m1'' ''late'',
      Send_event (Indicator_clear (Some ''messaging:ai'') ''m1'')]"
  by (simp add: run_def constructor_def example_message_def handleStopGenerating_def
      dispose_def loop_body_def after_calls_def handleFunctionCalls_def add_text_def
      flush_def finish_def queryForSearch_def emit_def)

lemma chunk_effects_no_status:
  "list_all chunk_effect es \<Longrightarrow> filter error_status es = [] \<and> filter status_clear es = []"
proof (induction es)
  case Nil
  show ?case by simp
next
  case (Cons e es)
  then have "chunk_effect e" by simp
  then have "\<not> error_status e \<and> \<not> status_clear e"
    by (cases e rule: chunk_effect.cases) simp_all
  with Cons show ?case by simp
qed

lemma loop_effects_no_error_status:
  "list_all (\<lambda>e. chunk_effect e \<or> stop_effect e) es \<Longrightarrow> filter error_status es = []"
proof (induction es)
  case Nil
  show ?case by simp
next
  case (Cons e es)
  then have "chunk_effect e \<or> stop_effect e" by simp
  then have "\<not> error_status e"
    by (cases e rule: error_status.cases) simp_all
  with Cons show ?case by simp
qed

lemma no_error_status_drain:
  "filter error_status (trace (drain en s ds)) = filter error_status (trace s)"
proof -
  obtain es where "trace (drain en s ds) = trace s @ es"
      "list_all (\<lambda>e. chunk_effect e \<or> stop_effect e) es"
    using trace_drain by blast
  then show ?thesis
    by (simp add: loop_effects_no_error_status)
qed

lemma handle_stops_done: "is_done s \<Longrightarrow> handle_stops s evs = s"
  by (induction evs) (simp_all add: handleStopGenerating_def)

lemma handle_stops_unmatched:
  "\<forall>ev \<in> set evs. event_message_id ev \<noteq> Some (message_id (message s)) \<Longrightarrow>
   handle_stops s evs = s"
  by (induction evs) (simp_all add: handleStopGenerating_def)

lemma handle_stops_fields [simp]:
  "message (handle_stops s evs) = message s"
  "message_text (handle_stops s evs) = message_text s"
  "text_updates (trace (handle_stops s evs)) = text_updates (trace s)"
  "filter error_status (trace (handle_stops s evs)) = filter error_status (trace s)"
  by (induction evs arbitrary: s) (simp_all add: trace_handleStopGenerating)

lemma trace_handle_stops: "\<exists>es. trace (handle_stops s evs) = trace s @ es"
proof (induction evs arbitrary: s)
  case Nil
  show ?case by simp
next
  case (Cons ev evs)
  obtain es where "trace (handle_stops (handleStopGenerating s ev) evs) =
      trace (handleStopGenerating s ev) @ es"
    using Cons.IH by blast
  then show ?case
    by (simp add: trace_handleStopGenerating)
qed

lemma drain_stops_eq: "drain en s (map Stop evs) = handle_stops s evs"
  by (induction evs arbitrary: s) simp_all

lemma drain_unmatched:
  "\<forall>ev \<in> set (stop_events ds). event_message_id ev \<noteq> Some (message_id (message s)) \<Longrightarrow>
   filter status_clear (trace (drain en s ds)) = filter status_clear (trace s) \<and>
   is_done (drain en s ds) = is_done s"
proof (induction ds arbitrary: s)
  case Nil
  show ?case by simp
next
  case (Cons d ds)
  show ?case
  proof (cases d)
    case (Chunk c now)
    obtain es where es: "trace (loop_body en s c now) = trace s @ es" "list_all chunk_effect es"
      using trace_loop_body by blast
    have "filter status_clear (trace (loop_body en s c now)) = filter status_clear (trace s)"
      using chunk_effects_no_status [OF es(2)] by (simp add: es(1))
    with Cons Chunk show ?thesis by simp
  next
    case (Stop ev)
    with Cons.prems have "handleStopGenerating s ev = s"
      by (simp add: handleStopGenerating_def)
    with Cons Stop show ?thesis by simp
  qed
qed

lemma is_done_handleError:
  "is_done (fst (handleError s error a1 a2)) \<or> snd (handleError s error a1 a2)"
  by (simp add: handleError_def Let_def split: thrown.splits)

lemma handleError_done: "is_done s \<Longrightarrow> handleError s error a1 a2 = (s, False)"
  by (simp add: handleError_def)

lemma error_status_handleError:
  "\<not> is_done s \<Longrightarrow>
   filter error_status (trace (fst (handleError s error a1 a2))) =
     filter error_status (trace s) @
       [Send_event (Indicator_update AI_STATE_ERROR (cid (message s)) (message_id (message s)))]"
  by (simp add: handleError_def Let_def trace_dispose split: thrown.splits)

lemma trace_handleError_begins:
  "\<not> is_done s \<Longrightarrow>
   \<exists>es. trace (fst (handleError s error a1 a2)) =
     trace s @
       Send_event (Indicator_update AI_STATE_ERROR (cid (message s)) (message_id (message s))) # es"
proof -
  assume nd: "\<not> is_done s"
  let ?st = "Send_event (Indicator_update AI_STATE_ERROR (cid (message s)) (message_id (message s)))"
  obtain es1 where es1: "trace (handle_stops (emit ?st s) (meanwhile a1)) = trace (emit ?st s) @ es1"
    using trace_handle_stops by blast
  show ?thesis
  proof (cases "resolves a1")
    case False
    with nd es1 show ?thesis
      by (simp add: handleError_def Let_def)
  next
    case True
    show ?thesis
    proof (cases error)
      case Nullish
      with nd es1 True show ?thesis
        by (simp add: handleError_def Let_def)
    next
      case (Thrown err)
      let ?s1 = "handle_stops (emit ?st s) (meanwhile a1)"
      let ?up = "Partial_update (On_error (error_toString err)) (message_id (message s))
                   (error_text err)"
      obtain es2 where es2: "trace (handle_stops (emit ?up ?s1) (meanwhile a2)) =
          trace (emit ?up ?s1) @ es2"
        using trace_handle_stops by blast
      with nd es1 True Thrown show ?thesis
        by (simp add: handleError_def Let_def trace_dispose)
    qed
  qed
qed

lemma handleError_resolved:
  "\<not> is_done s \<Longrightarrow> resolves a1 \<Longrightarrow> resolves a2 \<Longrightarrow>
   text_updates (trace (fst (handleError s (Thrown err) a1 a2))) =
     text_updates (trace s) @ [error_text err] \<and>
   is_done (fst (handleError s (Thrown err) a1 a2)) \<and>
   \<not> snd (handleError s (Thrown err) a1 a2)"
  by (simp add: handleError_def Let_def trace_dispose)

lemma handleError_undisturbed:
  assumes "\<not> is_done s" "resolves a1" "resolves a2"
    and "\<forall>ev \<in> set (meanwhile a1 @ meanwhile a2).
           event_message_id ev \<noteq> Some (message_id (message s))"
  shows "trace (fst (handleError s (Thrown err) a1 a2)) =
     trace s @
       [Send_event (Indicator_update AI_STATE_ERROR (cid (message s)) (message_id (message s))),
        Partial_update (On_error (error_toString err)) (message_id (message s)) (error_text err),
        Client_off, On_dispose]"
proof -
  let ?st = "Send_event (Indicator_update AI_STATE_ERROR (cid (message s)) (message_id (message s)))"
  let ?up = "Partial_update (On_error (error_toString err)) (message_id (message s))
               (error_text err)"
  have 1: "handle_stops (emit ?st s) (meanwhile a1) = emit ?st s"
    using assms(4) by (intro handle_stops_unmatched) simp
  have 2: "handle_stops (emit ?up (emit ?st s)) (meanwhile a2) = emit ?up (emit ?st s)"
    using assms(4) by (intro handle_stops_unmatched) simp
  show ?thesis
    using assms(1-3) by (simp add: handleError_def Let_def 1 2 trace_dispose)
qed

lemma snd_handleError:
  "snd (handleError s error a1 a2) =
     (\<not> is_done s \<and> (\<not> resolves a1 \<or> error = Nullish \<or> \<not> resolves a2))"
  by (auto simp add: handleError_def Let_def split: thrown.splits)

lemma no_clear_handleError:
  assumes "\<forall>ev \<in> set (meanwhile a1 @ meanwhile a2).
           event_message_id ev \<noteq> Some (message_id (message s))"
  shows "filter status_clear (trace (dispose (fst (handleError s error a1 a2)))) =
     filter status_clear (trace s)"
proof -
  let ?st = "Send_event (Indicator_update AI_STATE_ERROR (cid (message s)) (message_id (message s)))"
  have 1: "handle_stops (emit ?st s) (meanwhile a1) = emit ?st s"
    using assms by (intro handle_stops_unmatched) simp
  have 2: "handle_stops (emit e (emit ?st s)) (meanwhile a2) = emit e (emit ?st s)" for e
    using assms by (intro handle_stops_unmatched) simp
  show ?thesis
    by (simp add: handleError_def Let_def 1 2 trace_dispose split: thrown.splits)
qed

text \<open>
  C8, as the code has it: a run whose stream throws. If the handler is done when the
  fault is caught (a stop event was handled), the \<open>catch\<close> and \<open>finally\<close>
  blocks change nothing. Otherwise one error status is sent, first, and the handler ends
  done, with the partial text kept in \<open>message_text\<close> only. When the thrown value
  has properties and both awaited calls of the error handler resolve, the last text
  sent for the message is \<open>Error: \<close> followed by the message of the fault (or by a
  fixed text when it has none), and \<open>run\<close> resolves; with no stop event for the
  message handled meanwhile, the trace ends with the status, that update, the
  unsubscription and the release. A clear is sent only by the stop handler: when no stop
  event with the id of the message is handled, during the run or while the error handler
  is suspended, none is sent, before or after. \<open>run\<close> rejects exactly when the
  handler is not done at the fault and either the thrown value is \<open>null\<close> or
  \<open>undefined\<close> or an awaited call of the error handler rejects.
\<close>

theorem stream_fault_handled:
  fixes en m ds error a1 a2 evs
  defines "d \<equiv> drain en (constructor m) ds"
    and "r \<equiv> run en (constructor m) ds (Fault error a1 a2)"
    and "status \<equiv> Send_event (Indicator_update AI_STATE_ERROR (cid m) (message_id m))"
  shows
  "(is_done d \<longrightarrow> r = d \<and> \<not> run_rejects en (constructor m) ds (Fault error a1 a2)) \<and>
   (\<not> is_done d \<longrightarrow>
      filter error_status (trace r) = [status] \<and>
      (\<exists>es. trace r = trace d @ status # es) \<and>
      is_done r \<and>
      message_text r = fragments ds) \<and>
   (\<not> is_done d \<and> error = Thrown err \<and> resolves a1 \<and> resolves a2 \<longrightarrow>
      text_updates (trace r) = text_updates (trace d) @ [error_text err] \<and>
      last (text_updates (trace r)) = error_text err \<and>
      \<not> run_rejects en (constructor m) ds (Fault error a1 a2)) \<and>
   (\<not> is_done d \<and> error = Thrown err \<and> resolves a1 \<and> resolves a2 \<and>
    (\<forall>ev \<in> set (meanwhile a1 @ meanwhile a2). event_message_id ev \<noteq> Some (message_id m)) \<longrightarrow>
      trace r =
        trace d @
          [status,
           Partial_update (On_error (error_toString err)) (message_id m) (error_text err),
           Client_off, On_dispose]) \<and>
   ((\<forall>ev \<in> set (stop_events ds @ meanwhile a1 @ meanwhile a2).
        event_message_id ev \<noteq> Some (message_id m)) \<longrightarrow>
      \<not> is_done d \<and> filter status_clear (trace (drain en r (map Stop evs))) = []) \<and>
   run_rejects en (constructor m) ds (Fault error a1 a2) =
     (\<not> is_done d \<and> (\<not> resolves a1 \<or> error = Nullish \<or> \<not> resolves a2))"
proof -
  have md: "message d = m"
    by (simp add: d_def) (simp add: constructor_def)
  have mt: "message_text d = fragments ds"
    by (simp add: d_def message_text_drain) (simp add: constructor_def)
  have quiet: "filter error_status (trace d) = []"
    by (simp add: d_def no_error_status_drain) (simp add: constructor_def)
  have r: "r = dispose (fst (handleError d error a1 a2))"
    by (simp add: r_def d_def run_def)
  have rej: "run_rejects en (constructor m) ds (Fault error a1 a2) = snd (handleError d error a1 a2)"
    by (simp add: run_rejects_def d_def)
  have 1: "is_done d \<longrightarrow> r = d \<and> \<not> run_rejects en (constructor m) ds (Fault error a1 a2)"
    by (simp add: r rej handleError_done dispose_when_done)
  have 2: "\<not> is_done d \<longrightarrow>
      filter error_status (trace r) = [status] \<and>
      (\<exists>es. trace r = trace d @ status # es) \<and>
      is_done r \<and>
      message_text r = fragments ds"
  proof
    assume nd: "\<not> is_done d"
    obtain es where es: "trace (fst (handleError d error a1 a2)) = trace d @ status # es"
      using trace_handleError_begins [OF nd, of error a1 a2] by (auto simp add: md status_def)
    have "trace r = trace d @ status #
        (es @ (if is_done (fst (handleError d error a1 a2)) then [] else [Client_off, On_dispose]))"
      by (simp add: r trace_dispose es)
    then have ex: "\<exists>es. trace r = trace d @ status # es"
      by blast
    have "message_text (fst (handleError d error a1 a2)) = message_text d"
      by (simp add: handleError_def Let_def split: thrown.splits)
    then have "message_text r = fragments ds"
      by (simp add: r mt)
    moreover have "filter error_status (trace r) = [status]"
      using nd by (simp add: r trace_dispose error_status_handleError quiet md status_def)
    ultimately show "filter error_status (trace r) = [status] \<and>
      (\<exists>es. trace r = trace d @ status # es) \<and> is_done r \<and> message_text r = fragments ds"
      using ex by (simp add: r)
  qed
  have 3: "\<not> is_done d \<and> error = Thrown err \<and> resolves a1 \<and> resolves a2 \<longrightarrow>
      text_updates (trace r) = text_updates (trace d) @ [error_text err] \<and>
      last (text_updates (trace r)) = error_text err \<and>
      \<not> run_rejects en (constructor m) ds (Fault error a1 a2)"
  proof
    assume a: "\<not> is_done d \<and> error = Thrown err \<and> resolves a1 \<and> resolves a2"
    with handleError_resolved [of d a1 a2 err]
    have "text_updates (trace (fst (handleError d error a1 a2))) =
        text_updates (trace d) @ [error_text err] \<and>
      is_done (fst (handleError d error a1 a2)) \<and> \<not> snd (handleError d error a1 a2)"
      by simp
    then show "text_updates (trace r) = text_updates (trace d) @ [error_text err] \<and>
      last (text_updates (trace r)) = error_text err \<and>
      \<not> run_rejects en (constructor m) ds (Fault error a1 a2)"
      by (simp add: r rej trace_dispose)
  qed
  have 4: "\<not> is_done d \<and> error = Thrown err \<and> resolves a1 \<and> resolves a2 \<and>
    (\<forall>ev \<in> set (meanwhile a1 @ meanwhile a2). event_message_id ev \<noteq> Some (message_id m)) \<longrightarrow>
      trace r =
        trace d @
          [status,
           Partial_update (On_error (error_toString err)) (message_id m) (error_text err),
           Client_off, On_dispose]"
  proof
    assume a: "\<not> is_done d \<and> error = Thrown err \<and> resolves a1 \<and> resolves a2 \<and>
      (\<forall>ev \<in> set (meanwhile a1 @ meanwhile a2). event_message_id ev \<noteq> Some (message_id m))"
    then have un: "\<forall>ev \<in> set (meanwhile a1 @ meanwhile a2).
        event_message_id ev \<noteq> Some (message_id (message d))"
      by (simp add: md)
    have dn: "is_done (fst (handleError d (Thrown err) a1 a2))"
      using a handleError_resolved [of d a1 a2 err] by simp
    from a have "trace (fst (handleError d (Thrown err) a1 a2)) =
        trace d @
          [status,
           Partial_update (On_error (error_toString err)) (message_id m) (error_text err),
           Client_off, On_dispose]"
      using handleError_undisturbed [OF _ _ _ un, of err] by (simp add: md status_def)
    with a dn show "trace r =
        trace d @
          [status,
           Partial_update (On_error (error_toString err)) (message_id m) (error_text err),
           Client_off, On_dispose]"
      by (simp add: r dispose_when_done)
  qed
  have 5: "(\<forall>ev \<in> set (stop_events ds @ meanwhile a1 @ meanwhile a2).
        event_message_id ev \<noteq> Some (message_id m)) \<longrightarrow>
      \<not> is_done d \<and> filter status_clear (trace (drain en r (map Stop evs))) = []"
  proof
    assume a: "\<forall>ev \<in> set (stop_events ds @ meanwhile a1 @ meanwhile a2).
        event_message_id ev \<noteq> Some (message_id m)"
    then have "\<forall>ev \<in> set (stop_events ds).
        event_message_id ev \<noteq> Some (message_id (message (constructor m)))"
      by (simp add: constructor_def)
    from drain_unmatched [OF this, of en]
    have dq: "filter status_clear (trace d) = []" and nd: "\<not> is_done d"
      by (simp_all add: d_def) (simp_all add: constructor_def)
    from a have "\<forall>ev \<in> set (meanwhile a1 @ meanwhile a2).
        event_message_id ev \<noteq> Some (message_id (message d))"
      by (simp add: md)
    then have "filter status_clear (trace r) = []"
      by (simp add: r no_clear_handleError dq)
    moreover have "drain en r (map Stop evs) = r"
      by (simp add: r drain_stops_when_done)
    ultimately show "\<not> is_done d \<and> filter status_clear (trace (drain en r (map Stop evs))) = []"
      using nd by simp
  qed
  have 6: "run_rejects en (constructor m) ds (Fault error a1 a2) =
     (\<not> is_done d \<and> (\<not> resolves a1 \<or> error = Nullish \<or> \<not> resolves a2))"
    by (simp add: rej snd_handleError)
  from 1 2 3 4 5 6 show ?thesis
    by blast
qed

theorem stream_fault_handled_witness:
  "is_done (drain example_env (constructor example_message)
        [Stop \<lparr>event_message_id = Some ''m1''\<rparr>]) \<and>
   run example_env (constructor example_message) [Stop \<lparr>event_message_id = Some ''m1''\<rparr>]
        (Fault (Thrown \<lparr>error_message = Some ''boom'', error_toString = ''Error: boom''\<rparr>)
           \<lparr>meanwhile = [], resolves = True\<rparr> \<lparr>meanwhile = [], resolves = True\<rparr>) =
     drain example_env (constructor example_message) [Stop \<lparr>event_message_id = Some ''m1''\<rparr>] \<and>
   \<not> is_done (drain example_env (constructor example_message)
        [Chunk \<lparr>functionCalls = None, chunk_text = Some ''partial''\<rparr> 5000,
         Stop \<lparr>event_message_id = Some ''m2''\<rparr>]) \<and>
   resolves \<lparr>meanwhile = [\<lparr>event_message_id = Some ''m2''\<rparr>], resolves = True\<rparr> \<and>
   event_message_id \<lparr>event_message_id = Some ''m2''\<rparr> \<noteq> Some (message_id example_message) \<and>
   trace (run example_env (constructor example_message)
        [Chunk \<lparr>functionCalls = None, chunk_text = Some ''partial''\<rparr> 5000,
         Stop \<lparr>event_message_id = Some ''m2''\<rparr>]
        (Fault (Thrown \<lparr>error_message = Some ''boom'', error_toString = ''Error: boom''\<rparr>)
           \<lparr>meanwhile = [\<lparr>event_message_id = Some ''m2''\<rparr>], resolves = True\<rparr>
           \<lparr>meanwhile = [], resolves = True\<rparr>)) =
     [Client_on, Partial_update (Throttled 5000) ''m1'' ''partial'',
      Send_event (Indicator_update AI_STATE_ERROR (Some ''messaging:ai'') ''m1''),
      Partial_update (On_error ''Error: boom'') ''m1'' ''Error: boom'',
      Client_off, On_dispose] \<and>
   filter status_clear (trace (drain example_env
        (run example_env (constructor example_message)
          [Chunk \<lparr>functionCalls = None, chunk_text = Some ''partial''\<rparr> 5000,
           Stop \<lparr>event_message_id = Some ''m2''\<rparr>]
          (Fault (Thrown \<lparr>error_message = Some ''boom'', error_toString = ''Error: boom''\<rparr>)
             \<lparr>meanwhile = [\<lparr>event_message_id = Some ''m2''\<rparr>], resolves = True\<rparr>
             \<lparr>meanwhile = [], resolves = True\<rparr>))
        (map Stop [\<lparr>event_message_id = Some ''m1''\<rparr>]))) = []"
  using stream_fault_handled [of example_env example_message
      "[Stop \<lparr>event_message_id = Some ''m1''\<rparr>]"
      "Thrown \<lparr>error_message = Some ''boom'', error_toString = ''Error: boom''\<rparr>"
      "\<lparr>meanwhile = [], resolves = True\<rparr>" "\<lparr>meanwhile = [], resolves = True\<rparr>"
      "\<lparr>error_message = Some ''boom'', error_toString = ''Error: boom''\<rparr>" "[]"]
    stream_fault_handled [of example_env example_message
      "[Chunk \<lparr>functionCalls = None, chunk_text = Some ''partial''\<rparr> 5000,
        Stop \<lparr>event_message_id = Some ''m2''\<rparr>]"
      "Thrown \<lparr>error_message = Some ''boom'', error_toString = ''Error: boom''\<rparr>"
      "\<lparr>meanwhile = [\<lparr>event_message_id = Some ''m2''\<rparr>], resolves = True\<rparr>"
      "\<lparr>meanwhile = [], resolves = True\<rparr>"
      "\<lparr>error_message = Some ''boom'', error_toString = ''Error: boom''\<rparr>"
      "[\<lparr>event_message_id = Some ''m1''\<rparr>]"]
  by (simp add: constructor_def example_message_def loop_body_def after_calls_def
      add_text_def flush_def emit_def handleStopGenerating_def dispose_def error_text_def)

text \<open>
  The claim as written fails twice. A stop event for the message handled while the error
  handler waits for its status event sends a clear in a run that throws and was not
  disposed. And when the stream throws \<open>undefined\<close>, reading its message throws:
  the text of the message is not overwritten and \<open>run\<close> rejects.
\<close>

theorem stop_during_error_handler:
  "\<not> is_done (drain example_env (constructor example_message)
        [Chunk \<lparr>functionCalls = None, chunk_text = Some ''partial''\<rparr> 5000]) \<and>
   filter status_clear (trace (run example_env (constructor example_message)
        [Chunk \<lparr>functionCalls = None, chunk_text = Some ''partial''\<rparr> 5000]
        (Fault (Thrown \<lparr>error_message = Some ''boom'', error_toString = ''Error: boom''\<rparr>)
           \<lparr>meanwhile = [\<lparr>event_message_id = Some ''m1''\<rparr>], resolves = True\<rparr>
           \<lparr>meanwhile = [], resolves = True\<rparr>))) =
     [Send_event (Indicator_clear (Some ''messaging:ai'') ''m1'')] \<and>
   filter error_status (trace (run example_env (constructor example_message)
        [Chunk \<lparr>functionCalls = None, chunk_text = Some ''partial''\<rparr> 5000]
        (Fault (Thrown \<lparr>error_message = Some ''boom'', error_toString = ''Error: boom''\<rparr>)
           \<lparr>meanwhile = [\<lparr>event_message_id = Some ''m1''\<rparr>], resolves = True\<rparr>
           \<lparr>meanwhile = [], resolves = True\<rparr>))) =
     [Send_event (Indicator_update AI_STATE_ERROR (Some ''messaging:ai'') ''m1'')] \<and>
   run_rejects example_env (constructor example_message)
        [Chunk \<lparr>functionCalls = None, chunk_text = Some ''partial''\<rparr> 5000]
        (Fault Nullish \<lparr>meanwhile = [], resolves = True\<rparr> \<lparr>meanwhile = [], resolves = True\<rparr>) \<and>
   text_updates (trace (run example_env (constructor example_message)
        [Chunk \<lparr>functionCalls = None, chunk_text = Some ''partial''\<rparr> 5000]
        (Fault Nullish \<lparr>meanwhile = [], resolves = True\<rparr> \<lparr>meanwhile = [], resolves = True\<rparr>))) =
     [''partial'']"
  by (simp add: run_def run_rejects_def handleError_def constructor_def example_message_def
      loop_body_def after_calls_def add_text_def flush_def emit_def handleStopGenerating_def
      dispose_def error_text_def)

lemma queries_for_dispatched:
  "dispatched call \<Longrightarrow> args call = Some a \<Longrightarrow> queries_for en call = [queryForSearch en a]"
  by (simp add: queries_for_def)

text \<open>
  C6, as the code has it: the query handed to the provider for a \<open>web_search\<close> call
  whose payload is truthy. A string \<open>query\<close> field is used as it is; another value of
  the field, unless null, is coerced with \<open>String\<close>; an object without the field is
  serialized whole; a payload that is no object is coerced with \<open>String\<close>. A call
  that does not pass the guard hands no query to the provider. The provider calls of a
  chunk are exactly these queries, in the order of the calls.
\<close>

theorem query_extraction:
  "(get_query (JObj kvs) = Some (JStr q) \<longrightarrow> queryForSearch en (JObj kvs) = q) \<and>
   (get_query (JObj kvs) = Some v \<and> v \<noteq> JNull \<and> (\<forall>t. v \<noteq> JStr t) \<longrightarrow>
      queryForSearch en (JObj kvs) = js_String en v) \<and>
   (get_query (JObj kvs) = None \<longrightarrow>
      queryForSearch en (JObj kvs) = JSON_stringify en (JObj kvs)) \<and>
   (\<not> is_object a \<longrightarrow> queryForSearch en a = js_String en a) \<and>
   queryForSearch en (JObj [(''query'', JStr ''cats'')]) = ''cats'' \<and>
   queryForSearch en (JObj [(''q'', JStr ''cats'')]) =
     JSON_stringify en (JObj [(''q'', JStr ''cats'')]) \<and>
   (dispatched call \<and> args call = Some b \<longrightarrow>
      queries_for en call = [queryForSearch en b]) \<and>
   (\<not> dispatched call \<longrightarrow> queries_for en call = []) \<and>
   dispatched call =
     (name call = Some ''web_search'' \<and> (\<exists>p. args call = Some p \<and> truthy p)) \<and>
   queries_for en \<lparr>name = Some ''web_search'', args = Some (JObj [(''query'', JStr ''cats'')])\<rparr> =
     [''cats''] \<and>
   queries_for en \<lparr>name = Some ''web_search'', args = Some (JObj [(''q'', JStr ''cats'')])\<rparr> =
     [JSON_stringify en (JObj [(''q'', JStr ''cats'')])] \<and>
   trace (snd (handleFunctionCalls en calls s)) =
     trace s @
       Send_event (Indicator_update AI_STATE_EXTERNAL_SOURCES (cid (message s))
         (message_id (message s))) #
       map Web_search (concat (map (queries_for en) calls))"
proof -
  have v: "get_query (JObj kvs) = Some v \<and> v \<noteq> JNull \<and> (\<forall>t. v \<noteq> JStr t) \<longrightarrow>
      queryForSearch en (JObj kvs) = js_String en v"
    by (cases v) (simp_all add: queryForSearch_def)
  have q: "(get_query (JObj kvs) = Some (JStr q) \<longrightarrow> queryForSearch en (JObj kvs) = q) \<and>
      (get_query (JObj kvs) = None \<longrightarrow>
         queryForSearch en (JObj kvs) = JSON_stringify en (JObj kvs)) \<and>
      (\<not> is_object a \<longrightarrow> queryForSearch en a = js_String en a) \<and>
      queryForSearch en (JObj [(''query'', JStr ''cats'')]) = ''cats'' \<and>
      queryForSearch en (JObj [(''q'', JStr ''cats'')]) =
        JSON_stringify en (JObj [(''q'', JStr ''cats'')])"
    by (simp add: queryForSearch_def)
  have c: "queries_for en
      \<lparr>name = Some ''web_search'', args = Some (JObj [(''query'', JStr ''cats'')])\<rparr> = [''cats'']"
    "queries_for en
      \<lparr>name = Some ''web_search'', args = Some (JObj [(''q'', JStr ''cats'')])\<rparr> =
      [JSON_stringify en (JObj [(''q'', JStr ''cats'')])]"
    by (simp_all add: queries_for_def dispatched_def queryForSearch_def)
  have g: "dispatched call =
     (name call = Some ''web_search'' \<and> (\<exists>p. args call = Some p \<and> truthy p))"
    by (cases "args call") (simp_all add: dispatched_def)
  have p: "(dispatched call \<and> args call = Some b \<longrightarrow>
      queries_for en call = [queryForSearch en b]) \<and>
    (\<not> dispatched call \<longrightarrow> queries_for en call = [])"
    by (simp add: queries_for_dispatched not_dispatched_nothing)
  have t: "trace (snd (handleFunctionCalls en calls s)) =
     trace s @
       Send_event (Indicator_update AI_STATE_EXTERNAL_SOURCES (cid (message s))
         (message_id (message s))) #
       map Web_search (concat (map (queries_for en) calls))"
    by (simp add: handleFunctionCalls_eq)
  from v q c g p t show ?thesis
    by blast
qed

theorem query_extraction_witness:
  "get_query (JObj [(''query'', JStr ''cats'')]) = Some (JStr ''cats'') \<and>
   queryForSearch example_env (JObj [(''query'', JStr ''cats'')]) = ''cats'' \<and>
   get_query (JObj [(''query'', JNum 42)]) = Some (JNum 42) \<and>
   queryForSearch example_env (JObj [(''query'', JNum 42)]) = ''42'' \<and>
   get_query (JObj [(''q'', JStr ''cats'')]) = None \<and>
   queryForSearch example_env (JObj [(''q'', JStr ''cats'')]) =
     JSON_stringify example_env (JObj [(''q'', JStr ''cats'')]) \<and>
   \<not> is_object (JStr ''dogs'') \<and>
   queryForSearch example_env (JStr ''dogs'') = ''dogs'' \<and>
   dispatched \<lparr>name = Some ''web_search'', args = Some (JStr ''dogs'')\<rparr> \<and>
   queries_for example_env \<lparr>name = Some ''web_search'', args = Some (JStr ''dogs'')\<rparr> =
     [''dogs''] \<and>
   \<not> dispatched \<lparr>name = Some ''web_search'', args = Some JNull\<rparr> \<and>
   queries_for example_env \<lparr>name = Some ''web_search'', args = Some JNull\<rparr> = []"
  using query_extraction [of "[(''query'', JStr ''cats'')]" "''cats''" example_env
      "JNum 42" "JStr ''dogs''" "\<lparr>name = Some ''web_search'', args = Some (JStr ''dogs'')\<rparr>"
      "JStr ''dogs''" "[]" "constructor example_message"]
    query_extraction [of "[(''query'', JNum 42)]" "''cats''" example_env
      "JNum 42" "JStr ''dogs''" "\<lparr>name = Some ''web_search'', args = Some JNull\<rparr>"
      "JStr ''dogs''" "[]" "constructor example_message"]
    query_extraction [of "[(''q'', JStr ''cats'')]" "''cats''" example_env
      "JNum 42" "JStr ''dogs''" "\<lparr>name = Some ''web_search'', args = Some (JStr ''dogs'')\<rparr>"
      "JStr ''dogs''" "[]" "constructor example_message"]
  by (simp add: example_env_def dispatched_def)

text \<open>
  The claim as written fails for a bare primitive that is falsy: for the payloads
  \<open>0\<close>, the empty string and \<open>false\<close> the provider is not called at all.
\<close>

theorem falsy_payload_passes_no_query:
  "queries_for example_env \<lparr>name = Some ''web_search'', args = Some (JNum 0)\<rparr> = [] \<and>
   queries_for example_env \<lparr>name = Some ''web_search'', args = Some (JStr [])\<rparr> = [] \<and>
   queries_for example_env \<lparr>name = Some ''web_search'', args = Some (JBool False)\<rparr> = [] \<and>
   trace (snd (handleFunctionCalls example_env
      [\<lparr>name = Some ''web_search'', args = Some (JNum 0)\<rparr>,
       \<lparr>name = Some ''web_search'', args = Some (JStr [])\<rparr>,
       \<lparr>name = Some ''web_search'', args = Some (JBool False)\<rparr>]
      (constructor example_message))) =
     [Client_on,
      Send_event (Indicator_update AI_STATE_EXTERNAL_SOURCES (Some ''messaging:ai'') ''m1'')]"
  by (simp add: queries_for_def dispatched_def handleFunctionCalls_def constructor_def
      example_message_def emit_def)








end
